theory Spec2Isabelle
  imports Main
begin

section \<open>Python values as far as the bridge observes them\<close>

text \<open>
  An exception object is its class, given by the list of the names of the class and of
  all its base classes (the method resolution order), and its arguments. Two raises are
  ``the same exception'' when the objects are equal. \<open>isinstance_exc e c\<close> is Python's
  \<open>isinstance(e, c)\<close>, so \<open>except Exception\<close> catches \<open>e\<close> exactly when
  \<open>isinstance_exc e ''Exception''\<close>.
\<close>

datatype pyexc = PyExc (exc_mro: "string list") (exc_args: string)

definition isinstance_exc :: "pyexc \<Rightarrow> string \<Rightarrow> bool" where
  "isinstance_exc e c = (c \<in> set (exc_mro e))"

definition TypeError :: pyexc where
  "TypeError = PyExc [''TypeError'', ''Exception'', ''BaseException''] []"

definition ValueError :: pyexc where
  "ValueError = PyExc [''ValueError'', ''Exception'', ''BaseException''] []"

definition AttributeError :: pyexc where
  "AttributeError = PyExc [''AttributeError'', ''Exception'', ''BaseException''] []"

text \<open>
  The values the wrappers can be handed: \<open>None\<close>, integers, strings, dictionaries with
  string keys, instances of user classes (an attribute table; such an instance is truthy,
  not iterable and has no item assignment), instances of user mapping classes (a mutable
  mapping with string keys that is not a \<open>dict\<close>: it has the methods of
  \<open>collections.abc.MutableMapping\<close>, item assignment included), and callables. A
  callable is given by the outcome of the one call this module makes of it
  (\<open>ctxt.to_dict()\<close> takes no argument, \<open>message.get("method", "unknown")\<close> has
  constant arguments).
\<close>

datatype pyval =
    PNone
  | PInt int
  | PStr string
  | PDict "string \<Rightarrow> pyval option"
  | PObj "string \<Rightarrow> pyval option"
  | PMapping "string \<Rightarrow> pyval option"
  | PCallable "pyexc + pyval"

text \<open>The public methods of \<open>dict\<close>: the names \<open>hasattr\<close> finds on a dictionary.\<close>

definition dict_methods :: "string list" where
  "dict_methods = [''clear'', ''copy'', ''fromkeys'', ''get'', ''items'', ''keys'',
     ''pop'', ''popitem'', ''setdefault'', ''update'', ''values'']"

text \<open>The methods a class inherits from \<open>collections.abc.MutableMapping\<close>.\<close>

definition mapping_methods :: "string list" where
  "mapping_methods = [''clear'', ''get'', ''items'', ''keys'', ''pop'', ''popitem'',
     ''setdefault'', ''update'', ''values'']"

text \<open>
  \<open>hasattr(v, n)\<close>. For \<open>None\<close>, integers, strings and callables it is exact on the
  names this module asks for (\<open>to_dict\<close>, \<open>get\<close>, \<open>ctxt\<close>, \<open>message\<close>,
  \<open>target\<close>): none of them is an attribute of these types.
\<close>

fun py_hasattr :: "pyval \<Rightarrow> string \<Rightarrow> bool" where
  "py_hasattr (PObj attrs) n = (attrs n \<noteq> None)"
| "py_hasattr (PDict d) n = (n \<in> set dict_methods)"
| "py_hasattr (PMapping m) n = (n \<in> set mapping_methods)"
| "py_hasattr v n = False"

text \<open>
  \<open>v.n\<close>: the attribute of an instance, or \<open>AttributeError\<close>. The module reads
  \<open>ctxt\<close>, \<open>message\<close>, \<open>to_dict\<close> and \<open>target\<close>, which no other value has;
  \<open>get\<close> on a dictionary or a mapping is \<open>py_get\<close> below.
\<close>

fun py_getattr :: "pyval \<Rightarrow> string \<Rightarrow> pyexc + pyval" where
  "py_getattr (PObj attrs) n = (case attrs n of Some a \<Rightarrow> Inr a | None \<Rightarrow> Inl AttributeError)"
| "py_getattr v n = Inl AttributeError"

text \<open>\<open>getattr(v, n, default)\<close>.\<close>

definition py_getattr_default :: "pyval \<Rightarrow> string \<Rightarrow> pyval \<Rightarrow> pyval" where
  "py_getattr_default v n dflt = (case py_getattr v n of Inr a \<Rightarrow> a | Inl e \<Rightarrow> dflt)"

text \<open>Truth value testing, as \<open>not v\<close> and \<open>v or w\<close> use it.\<close>

fun py_truthy :: "pyval \<Rightarrow> bool" where
  "py_truthy PNone = False"
| "py_truthy (PInt i) = (i \<noteq> 0)"
| "py_truthy (PStr s) = (s \<noteq> [])"
| "py_truthy (PDict d) = (d \<noteq> Map.empty)"
| "py_truthy (PObj attrs) = True"
| "py_truthy (PMapping m) = (m \<noteq> Map.empty)"
| "py_truthy (PCallable r) = True"

text \<open>
  \<open>dict(v)\<close>: a copy of a dictionary, or a dictionary with the entries of a mapping; the empty string has no element and gives the
  empty dictionary; the first element of any other string is a string of length one, not
  a pair (\<open>ValueError\<close>); everything else is not iterable (\<open>TypeError\<close>).
\<close>

fun py_dict :: "pyval \<Rightarrow> pyexc + pyval" where
  "py_dict (PDict d) = Inr (PDict d)"
| "py_dict (PMapping m) = Inr (PDict m)"
| "py_dict (PStr s) = (if s = [] then Inr (PDict Map.empty) else Inl ValueError)"
| "py_dict v = Inl TypeError"

text \<open>Calling a value with the arguments of its one call site.\<close>

fun py_call :: "pyval \<Rightarrow> pyexc + pyval" where
  "py_call (PCallable r) = r"
| "py_call v = Inl TypeError"

text \<open>\<open>v.n(...)\<close>: attribute lookup, then the call.\<close>

definition py_call_method :: "pyval \<Rightarrow> string \<Rightarrow> pyexc + pyval" where
  "py_call_method v n = (case py_getattr v n of Inl e \<Rightarrow> Inl e | Inr f \<Rightarrow> py_call f)"

text \<open>
  \<open>v[k] = x\<close> for a string \<open>k\<close>: a dictionary and a mapping take the item and stay what
  they are; no other value supports item assignment by a string key.
\<close>

fun py_setitem :: "pyval \<Rightarrow> string \<Rightarrow> pyval \<Rightarrow> pyexc + pyval" where
  "py_setitem (PDict d) k x = Inr (PDict (d(k \<mapsto> x)))"
| "py_setitem (PMapping m) k x = Inr (PMapping (m(k \<mapsto> x)))"
| "py_setitem v k x = Inl TypeError"

text \<open>Substring test, for \<open>k in s\<close> on a string \<open>s\<close>.\<close>

fun is_substring :: "string \<Rightarrow> string \<Rightarrow> bool" where
  "is_substring k [] = (k = [])"
| "is_substring k (c # s) = (take (length k) (c # s) = k \<or> is_substring k s)"

text \<open>\<open>k in v\<close> for a string \<open>k\<close>.\<close>

fun py_contains :: "string \<Rightarrow> pyval \<Rightarrow> pyexc + bool" where
  "py_contains k (PDict d) = Inr (d k \<noteq> None)"
| "py_contains k (PMapping m) = Inr (m k \<noteq> None)"
| "py_contains k (PStr s) = Inr (is_substring k s)"
| "py_contains k v = Inl TypeError"

definition KeyError :: "string \<Rightarrow> pyexc" where
  "KeyError k = PyExc [''KeyError'', ''LookupError'', ''Exception'', ''BaseException''] k"

text \<open>\<open>v[k]\<close> for a string \<open>k\<close>: a string is indexed by integers only.\<close>

fun py_getitem :: "pyval \<Rightarrow> string \<Rightarrow> pyexc + pyval" where
  "py_getitem (PDict d) k = (case d k of Some x \<Rightarrow> Inr x | None \<Rightarrow> Inl (KeyError k))"
| "py_getitem (PMapping m) k = (case m k of Some x \<Rightarrow> Inr x | None \<Rightarrow> Inl (KeyError k))"
| "py_getitem v k = Inl TypeError"

text \<open>
  \<open>v.get(k, default)\<close>: the item or the default on a dictionary or a mapping, the
  instance's own \<open>get\<close> on an instance, \<open>AttributeError\<close> on a value with no \<open>get\<close>.
\<close>

fun py_get :: "pyval \<Rightarrow> string \<Rightarrow> pyval \<Rightarrow> pyexc + pyval" where
  "py_get (PDict d) k dflt = (case d k of Some x \<Rightarrow> Inr x | None \<Rightarrow> Inr dflt)"
| "py_get (PMapping m) k dflt = (case m k of Some x \<Rightarrow> Inr x | None \<Rightarrow> Inr dflt)"
| "py_get v k dflt = py_call_method v ''get''"

section \<open>The tracing interface and what the wrappers do to it\<close>

datatype span_kind = CLIENT | SERVER

text \<open>\<open>FStr p v\<close> is the formatted string \<open>f"p{v}"\<close>; for \<open>v = PStr s\<close> it is \<open>p @ s\<close>.\<close>

datatype fstring = FStr string pyval

text \<open>
  Every call a wrapper makes on the tracer, the span, the propagation interface and the
  wrapped method, in order. \<open>StartSpan n k c\<close> is entering
  \<open>with tracer.start_as_current_span(n, context=c, kind=k)\<close>; \<open>ExitSpan x\<close> is leaving that
  block, with the exception in flight if there is one (the tracer ends the span there).
\<close>

datatype 'c event =
    StartSpan fstring span_kind "'c option"
  | SetAttribute string pyval
  | RecordException pyexc
  | SetStatusError
  | ExitSpan "pyexc option"
  | Inject
  | Extract pyval
  | CallOriginal "pyval list" "string \<Rightarrow> pyval option"

text \<open>
  The tracing library is not part of this module. \<open>start_ctx\<close> gives the trace context
  that is current inside a \<open>with tracer.start_as_current_span(...)\<close> block;
  \<open>prop_inject c\<close> is what \<open>inject(carrier)\<close> leaves in an empty carrier when \<open>c\<close> is
  current, or the exception it raises; \<open>prop_extract\<close> is \<open>extract\<close>. The span's own
  methods return nothing and do not raise.
\<close>

record 'c otel =
  start_ctx :: "fstring \<Rightarrow> span_kind \<Rightarrow> 'c option \<Rightarrow> 'c"
  prop_inject :: "'c \<Rightarrow> pyexc + (string \<Rightarrow> pyval option)"
  prop_extract :: "pyval \<Rightarrow> pyexc + 'c"

type_synonym 'c outcome = "(pyexc + pyval) \<times> 'c event list"

section \<open>The client side\<close>

text \<open>\<open>_inject_trace_context(self, ctxt)\<close>, called while the trace context \<open>cur\<close> is current.\<close>

definition inject_trace_context :: "'c otel \<Rightarrow> 'c \<Rightarrow> pyval \<Rightarrow> 'c outcome" where
  "inject_trace_context api cur ctxt =
     (case prop_inject api cur of
        Inl e \<Rightarrow> (Inl e, [Inject])
      | Inr carrier \<Rightarrow>
          (case (if py_hasattr ctxt ''to_dict'' then py_call_method ctxt ''to_dict''
                 else py_dict (if py_truthy ctxt then ctxt else PDict Map.empty)) of
             Inl e \<Rightarrow> (Inl e, [Inject])
           | Inr ctxt_dict \<Rightarrow>
               (py_setitem ctxt_dict ''_trace_context'' (PDict carrier), [Inject])))"

text \<open>
  The \<open>wrapper\<close> that \<open>_wrap_client_method(original_method, tracer, method_name)\<close>
  returns, applied to \<open>(self, ctxt, method, **kwargs)\<close>. \<open>self._inject_trace_context\<close> is
  the method above, which \<open>_instrument_client\<close> installs with the wrapper on a class
  that has no attribute of that name; it runs inside the span block, where the context of
  the new span is current. Only the call of the wrapped method is inside the \<open>try\<close>,
  and the handler is \<open>except Exception\<close>.
\<close>

definition wrap_client_method ::
  "'c otel \<Rightarrow> (pyval \<Rightarrow> pyval \<Rightarrow> pyval \<Rightarrow> (string \<Rightarrow> pyval option) \<Rightarrow> pyexc + pyval) \<Rightarrow> string \<Rightarrow>
     pyval \<Rightarrow> pyval \<Rightarrow> pyval \<Rightarrow> (string \<Rightarrow> pyval option) \<Rightarrow> 'c outcome" where
  "wrap_client_method api original_method method_name self ctxt method kwargs =
     (let name = FStr ''oslo_messaging.rpc.'' (PStr method_name);
          cur = start_ctx api name CLIENT None;
          opened = [StartSpan name CLIENT None,
                    SetAttribute ''rpc.method'' method,
                    SetAttribute ''rpc.system'' (PStr ''oslo_messaging''),
                    SetAttribute ''rpc.service'' (py_getattr_default self ''target'' PNone)];
          ctxt1 = (if \<not> py_truthy ctxt then PDict Map.empty else ctxt)
      in case inject_trace_context api cur ctxt1 of
           (Inl e, evs) \<Rightarrow> (Inl e, opened @ evs @ [ExitSpan (Some e)])
         | (Inr ctxt2, evs) \<Rightarrow>
             (let called = opened @ evs @ [CallOriginal [self, ctxt2, method] kwargs]
              in case original_method self ctxt2 method kwargs of
                   Inr result \<Rightarrow> (Inr result, called @ [ExitSpan None])
                 | Inl e \<Rightarrow>
                     if isinstance_exc e ''Exception''
                     then (Inl e, called @ [RecordException e, SetStatusError, ExitSpan (Some e)])
                     else (Inl e, called @ [ExitSpan (Some e)])))"

section \<open>The server side\<close>

text \<open>
  The value of \<open>ctxt_dict\<close> after the chain of tests on \<open>incoming.ctxt\<close> in the server
  \<open>wrapper\<close>: only the last conversion is guarded, and only against \<open>TypeError\<close> and
  \<open>ValueError\<close>.
\<close>

definition incoming_ctxt_dict :: "pyval \<Rightarrow> pyexc + pyval" where
  "incoming_ctxt_dict ctxt =
     (if py_hasattr ctxt ''to_dict'' then py_call_method ctxt ''to_dict''
      else if py_hasattr ctxt ''get'' then py_dict ctxt
      else if ctxt \<noteq> PNone then
        (case py_dict ctxt of
           Inr d \<Rightarrow> Inr d
         | Inl e \<Rightarrow>
             if isinstance_exc e ''TypeError'' \<or> isinstance_exc e ''ValueError'' then Inr PNone
             else Inl e)
      else Inr PNone)"

text \<open>
  The value of \<open>ctx\<close> after
  \<open>if ctxt_dict and "_trace_context" in ctxt_dict: ctx = extract(ctxt_dict["_trace_context"])\<close>;
  \<open>ctx\<close> stays \<open>None\<close> otherwise.
\<close>

definition extract_parent :: "'c otel \<Rightarrow> pyval \<Rightarrow> (pyexc + 'c option) \<times> 'c event list" where
  "extract_parent api ctxt_dict =
     (if \<not> py_truthy ctxt_dict then (Inr None, [])
      else case py_contains ''_trace_context'' ctxt_dict of
             Inl e \<Rightarrow> (Inl e, [])
           | Inr False \<Rightarrow> (Inr None, [])
           | Inr True \<Rightarrow>
               (case py_getitem ctxt_dict ''_trace_context'' of
                  Inl e \<Rightarrow> (Inl e, [])
                | Inr carrier \<Rightarrow>
                    (case prop_extract api carrier of
                       Inl e \<Rightarrow> (Inl e, [Extract carrier])
                     | Inr c \<Rightarrow> (Inr (Some c), [Extract carrier]))))"

text \<open>
  The \<open>wrapper\<close> that \<open>_wrap_server_process_incoming(original_method, tracer)\<close> returns,
  applied to \<open>(self, incoming)\<close>. The context and the method name are read before the
  span block is entered, so an exception there reaches the caller with no span started.
\<close>

definition wrap_server_process_incoming ::
  "'c otel \<Rightarrow> (pyval \<Rightarrow> pyval \<Rightarrow> pyexc + pyval) \<Rightarrow> pyval \<Rightarrow> pyval \<Rightarrow> 'c outcome" where
  "wrap_server_process_incoming api original_method self incoming =
     (if py_hasattr incoming ''ctxt'' \<and> py_hasattr incoming ''message'' then
        (case py_getattr incoming ''ctxt'' of
           Inl e \<Rightarrow> (Inl e, [])
         | Inr ctxt \<Rightarrow>
        (case incoming_ctxt_dict ctxt of
           Inl e \<Rightarrow> (Inl e, [])
         | Inr ctxt_dict \<Rightarrow>
        (case extract_parent api ctxt_dict of
           (Inl e, evs) \<Rightarrow> (Inl e, evs)
         | (Inr ctx, evs) \<Rightarrow>
        (case py_getattr incoming ''message'' of
           Inl e \<Rightarrow> (Inl e, evs)
         | Inr message \<Rightarrow>
        (case py_get message ''method'' (PStr ''unknown'') of
           Inl e \<Rightarrow> (Inl e, evs)
         | Inr method \<Rightarrow>
             (let called = evs @
                    [StartSpan (FStr ''oslo_messaging.rpc.server.'' method) SERVER ctx,
                     SetAttribute ''rpc.method'' method,
                     SetAttribute ''rpc.system'' (PStr ''oslo_messaging''),
                     SetAttribute ''rpc.service'' (py_getattr_default self ''target'' PNone),
                     CallOriginal [self, incoming] Map.empty]
              in case original_method self incoming of
                   Inr result \<Rightarrow> (Inr result, called @ [ExitSpan None])
                 | Inl e \<Rightarrow>
                     if isinstance_exc e ''Exception''
                     then (Inl e, called @ [RecordException e, SetStatusError, ExitSpan (Some e)])
                     else (Inl e, called @ [ExitSpan (Some e)])))))))
      else (original_method self incoming, [CallOriginal [self, incoming] Map.empty]))"

section \<open>Installing and removing the wrappers\<close>

text \<open>
  What an attribute of \<open>_BaseCallContext\<close> or \<open>RPCServer\<close> can hold: a function of another
  module, by its name; one of the two wrappers, a plain function that \<open>functools.wraps\<close>
  decorates and that keeps the original method, the tracer and, on the client, the method
  name; or the instrumentor's \<open>_inject_trace_context\<close>.
\<close>

datatype callable =
    Foreign string
  | ClientWrapper callable nat string
  | ServerWrapper callable nat
  | InjectTraceContext

text \<open>
  The attributes of the two classes the instrumentor patches; \<open>None\<close> for a module whose
  import raises \<open>ImportError\<close>.
\<close>

record modules =
  BaseCallContext :: "(string \<Rightarrow> callable option) option"
  RPCServer :: "(string \<Rightarrow> callable option) option"

definition RPC_CALL_METHODS :: "string list" where
  "RPC_CALL_METHODS = [''cast'', ''call'']"

text \<open>
  \<open>unwrap\<close> is imported from \<open>opentelemetry.instrumentation.utils\<close> and is not among the
  sources of this module. The functions that call it take it as a parameter:
  \<open>unwrap obj attr\<close> is the class \<open>unwrap(obj, attr)\<close> leaves.
\<close>

type_synonym unwrapper = "(string \<Rightarrow> callable option) \<Rightarrow> string \<Rightarrow> (string \<Rightarrow> callable option)"

definition instrument_client :: "nat \<Rightarrow> modules \<Rightarrow> modules" where
  "instrument_client tracer s =
     (case BaseCallContext s of
        None \<Rightarrow> s
      | Some original_base_call_context \<Rightarrow>
          (let cls1 = fold (\<lambda>method_name cls.
                              case cls method_name of
                                None \<Rightarrow> cls
                              | Some original_method \<Rightarrow>
                                  cls(method_name \<mapsto> ClientWrapper original_method tracer method_name))
                        RPC_CALL_METHODS original_base_call_context;
               cls2 = (if cls1 ''_inject_trace_context'' = None
                       then cls1(''_inject_trace_context'' \<mapsto> InjectTraceContext) else cls1)
           in s\<lparr>BaseCallContext := Some cls2\<rparr>))"

definition uninstrument_client :: "unwrapper \<Rightarrow> modules \<Rightarrow> modules" where
  "uninstrument_client unwrap s =
     (case BaseCallContext s of
        None \<Rightarrow> s
      | Some c \<Rightarrow>
          (let cls1 = fold (\<lambda>method_name cls.
                              if cls method_name \<noteq> None then unwrap cls method_name else cls)
                        RPC_CALL_METHODS c;
               cls2 = (if cls1 ''_inject_trace_context'' \<noteq> None
                       then cls1(''_inject_trace_context'' := None) else cls1)
           in s\<lparr>BaseCallContext := Some cls2\<rparr>))"

text \<open>
  \<open>_instrument_server\<close> reads \<open>RPCServer._process_incoming\<close> with no test: a class
  without it raises \<open>AttributeError\<close>, which is not the \<open>ImportError\<close> the function
  catches.
\<close>

definition instrument_server :: "nat \<Rightarrow> modules \<Rightarrow> pyexc option \<times> modules" where
  "instrument_server tracer s =
     (case RPCServer s of
        None \<Rightarrow> (None, s)
      | Some cls \<Rightarrow>
          (case cls ''_process_incoming'' of
             None \<Rightarrow> (Some AttributeError, s)
           | Some original_process_incoming \<Rightarrow>
               (None, s\<lparr>RPCServer :=
                  Some (cls(''_process_incoming'' \<mapsto> ServerWrapper original_process_incoming tracer))\<rparr>)))"

definition uninstrument_server :: "unwrapper \<Rightarrow> modules \<Rightarrow> modules" where
  "uninstrument_server unwrap s =
     (case RPCServer s of
        None \<Rightarrow> s
      | Some cls \<Rightarrow>
          s\<lparr>RPCServer :=
             Some (if cls ''_process_incoming'' \<noteq> None then unwrap cls ''_process_incoming'' else cls)\<rparr>)"

text \<open>\<open>_instrument\<close> and \<open>_uninstrument\<close>: the client first, then the server.\<close>

definition instrument :: "nat \<Rightarrow> modules \<Rightarrow> pyexc option \<times> modules" where
  "instrument tracer s = instrument_server tracer (instrument_client tracer s)"

definition uninstrument :: "unwrapper \<Rightarrow> modules \<Rightarrow> modules" where
  "uninstrument unwrap s = uninstrument_server unwrap (uninstrument_client unwrap s)"

section \<open>The injection on a store\<close>

text \<open>
  Whether \<open>_inject_trace_context\<close> changes an object of its caller is a question about
  object identity, so here the function runs on a store: a dictionary or an instance
  lives at an address, a value refers to it, and a new object takes the next free
  address. An instance carries its attributes and, when its class defines \<open>to_dict\<close>, the
  name of that method; a method is foreign code and may do to the store what it likes.
\<close>

type_synonym addr = nat

datatype sval = SNone | SInt int | SStr string | SRef addr

datatype sobj =
    SDict "string \<Rightarrow> sval option"
  | SInst "string \<Rightarrow> sval option" "nat option"

type_synonym store = "sobj list"

type_synonym methods = "nat \<Rightarrow> store \<Rightarrow> addr \<Rightarrow> (pyexc + sval) \<times> store"

definition deref :: "store \<Rightarrow> sval \<Rightarrow> sobj option" where
  "deref h v = (case v of SRef a \<Rightarrow> (if a < length h then Some (h ! a) else None) | _ \<Rightarrow> None)"

text \<open>\<open>hasattr(v, "to_dict")\<close>: an attribute of the instance or a method of its class.\<close>

definition s_hasattr_to_dict :: "store \<Rightarrow> sval \<Rightarrow> bool" where
  "s_hasattr_to_dict h v =
     (case deref h v of
        Some (SInst attrs m) \<Rightarrow> attrs ''to_dict'' \<noteq> None \<or> m \<noteq> None
      | _ \<Rightarrow> False)"

text \<open>
  \<open>v.to_dict()\<close>: an instance attribute of that name shadows the method, and no value of
  the store is callable.
\<close>

definition s_call_to_dict :: "methods \<Rightarrow> store \<Rightarrow> sval \<Rightarrow> (pyexc + sval) \<times> store" where
  "s_call_to_dict methods h v =
     (case v of
        SRef a \<Rightarrow>
          (case deref h v of
             Some (SInst attrs m) \<Rightarrow>
               (case attrs ''to_dict'' of
                  Some x \<Rightarrow> (Inl TypeError, h)
                | None \<Rightarrow> (case m of Some i \<Rightarrow> methods i h a | None \<Rightarrow> (Inl AttributeError, h)))
           | _ \<Rightarrow> (Inl AttributeError, h))
      | _ \<Rightarrow> (Inl AttributeError, h))"

definition s_truthy :: "store \<Rightarrow> sval \<Rightarrow> bool" where
  "s_truthy h v =
     (case v of
        SNone \<Rightarrow> False
      | SInt i \<Rightarrow> i \<noteq> 0
      | SStr s \<Rightarrow> s \<noteq> []
      | SRef a \<Rightarrow> (case deref h v of Some (SDict d) \<Rightarrow> d \<noteq> Map.empty | _ \<Rightarrow> True))"

text \<open>\<open>dict(v)\<close>: the copy is a new object.\<close>

definition s_dict :: "store \<Rightarrow> sval \<Rightarrow> (pyexc + sval) \<times> store" where
  "s_dict h v =
     (case v of
        SStr s \<Rightarrow> (if s = [] then (Inr (SRef (length h)), h @ [SDict Map.empty]) else (Inl ValueError, h))
      | SRef a \<Rightarrow>
          (case deref h v of
             Some (SDict d) \<Rightarrow> (Inr (SRef (length h)), h @ [SDict d])
           | _ \<Rightarrow> (Inl TypeError, h))
      | _ \<Rightarrow> (Inl TypeError, h))"

text \<open>\<open>v[k] = x\<close>: written into the dictionary \<open>v\<close> refers to, where it is.\<close>

definition s_setitem :: "store \<Rightarrow> sval \<Rightarrow> string \<Rightarrow> sval \<Rightarrow> pyexc option \<times> store" where
  "s_setitem h v k x =
     (case v of
        SRef a \<Rightarrow>
          (case deref h v of
             Some (SDict d) \<Rightarrow> (None, h[a := SDict (d(k \<mapsto> x))])
           | _ \<Rightarrow> (Some TypeError, h))
      | _ \<Rightarrow> (Some TypeError, h))"

text \<open>
  \<open>_inject_trace_context(self, ctxt)\<close> on the store \<open>h\<close>. \<open>injected\<close> is what \<open>inject\<close> writes
  into the new carrier, or the exception it raises. The literal \<open>{}\<close> of \<open>ctxt or {}\<close>
  is a new dictionary too.
\<close>

definition inject_trace_context_store ::
  "methods \<Rightarrow> pyexc + (string \<Rightarrow> sval option) \<Rightarrow> store \<Rightarrow> sval \<Rightarrow> (pyexc + sval) \<times> store" where
  "inject_trace_context_store methods injected h ctxt =
     (let carrier = length h;
          h1 = h @ [SDict Map.empty]
      in case injected of
           Inl e \<Rightarrow> (Inl e, h1)
         | Inr content \<Rightarrow>
             (let h2 = h1[carrier := SDict content]
              in case (if s_hasattr_to_dict h2 ctxt then s_call_to_dict methods h2 ctxt
                       else if s_truthy h2 ctxt then s_dict h2 ctxt
                       else s_dict (h2 @ [SDict Map.empty]) (SRef (length h2))) of
                   (Inl e, h3) \<Rightarrow> (Inl e, h3)
                 | (Inr ctxt_dict, h3) \<Rightarrow>
                     (case s_setitem h3 ctxt_dict ''_trace_context'' (SRef carrier) of
                        (Some e, h4) \<Rightarrow> (Inl e, h4)
                      | (None, h4) \<Rightarrow> (Inr ctxt_dict, h4))))"

section \<open>Example values\<close>

text \<open>
  A tracing interface whose spans all carry the context \<open>7\<close>, whose \<open>inject\<close> writes one
  \<open>traceparent\<close> entry and whose \<open>extract\<close> returns the context \<open>7\<close>; a second one
  whose \<open>inject\<close> raises.
\<close>

abbreviation example_carrier :: "string \<Rightarrow> pyval option" where
  "example_carrier \<equiv> [''traceparent'' \<mapsto> PStr ''00-0af7651916cd43dd-b7ad6b7169203331-01'']"

abbreviation example_api :: "nat otel" where
  "example_api \<equiv>
     \<lparr>start_ctx = (\<lambda>n k c. 7), prop_inject = (\<lambda>c. Inr example_carrier), prop_extract = (\<lambda>v. Inr 7)\<rparr>"

abbreviation RuntimeError :: pyexc where
  "RuntimeError \<equiv> PyExc [''RuntimeError'', ''Exception'', ''BaseException''] ''boom''"

abbreviation TimeoutError :: pyexc where
  "TimeoutError \<equiv> PyExc [''TimeoutError'', ''OSError'', ''Exception'', ''BaseException''] []"

abbreviation KeyboardInterrupt :: pyexc where
  "KeyboardInterrupt \<equiv> PyExc [''KeyboardInterrupt'', ''BaseException''] []"

abbreviation failing_api :: "nat otel" where
  "failing_api \<equiv>
     \<lparr>start_ctx = (\<lambda>n k c. 7), prop_inject = (\<lambda>c. Inl RuntimeError), prop_extract = (\<lambda>v. Inr 7)\<rparr>"


text \<open>
  The classes of oslo.messaging, with \<open>prepare\<close> standing for the methods that are not
  wrapped; and a client class that has an \<open>_inject_trace_context\<close> of its own.
\<close>

abbreviation oslo_modules :: modules where
  "oslo_modules \<equiv>
     \<lparr>BaseCallContext = Some [''call'' \<mapsto> Foreign ''call'', ''cast'' \<mapsto> Foreign ''cast'',
                               ''prepare'' \<mapsto> Foreign ''prepare''],
      RPCServer = Some [''_process_incoming'' \<mapsto> Foreign ''_process_incoming'']\<rparr>"

abbreviation own_inject_modules :: modules where
  "own_inject_modules \<equiv>
     \<lparr>BaseCallContext = Some [''call'' \<mapsto> Foreign ''call'',
                               ''_inject_trace_context'' \<mapsto> Foreign ''_inject_trace_context''],
      RPCServer = None\<rparr>"

text \<open>A client or server object of the instrumented class, with its target.\<close>

abbreviation example_receiver :: pyval where
  "example_receiver \<equiv> PObj [''target'' \<mapsto> PStr ''compute'']"

text \<open>A class whose \<open>to_dict\<close> is \<open>return self.data\<close>, for the store.\<close>

abbreviation returns_data :: methods where
  "returns_data \<equiv>
     (\<lambda>i h self.
        case h ! self of
          SInst attrs m \<Rightarrow> (case attrs ''data'' of Some v \<Rightarrow> (Inr v, h) | None \<Rightarrow> (Inl AttributeError, h))
        | SDict d \<Rightarrow> (Inl AttributeError, h))"

section \<open>Auxiliary facts\<close>

lemma dict_methods_queried [simp]:
  "''to_dict'' \<notin> set dict_methods" "''get'' \<in> set dict_methods"
  "''ctxt'' \<notin> set dict_methods" "''message'' \<notin> set dict_methods"
  by (simp_all add: dict_methods_def)

lemma mapping_methods_queried [simp]:
  "''to_dict'' \<notin> set mapping_methods" "''get'' \<in> set mapping_methods"
  "''ctxt'' \<notin> set mapping_methods" "''message'' \<notin> set mapping_methods"
  by (simp_all add: mapping_methods_def)

text \<open>After an item assignment the item is there to be read.\<close>

lemma py_setitem_Inr:
  "py_setitem v k x = Inr w \<Longrightarrow>
   py_truthy w \<and> py_contains k w = Inr True \<and> py_getitem w k = Inr x"
  by (cases v) auto

lemma py_dict_Inr: "py_dict v = Inr w \<Longrightarrow> \<exists>d. w = PDict d"
  by (cases v) (auto split: if_splits)

lemma py_getattr_Inr: "py_getattr v n = Inr a \<Longrightarrow> py_hasattr v n"
  by (cases v) (auto split: option.splits)

text \<open>What a returning injection has done.\<close>

lemma inject_trace_context_Inr:
  assumes "inject_trace_context api cur ctxt = (Inr c', evs)"
  shows "\<exists>v carrier. prop_inject api cur = Inr carrier \<and> evs = [Inject] \<and>
           py_setitem v ''_trace_context'' (PDict carrier) = Inr c' \<and>
           (if py_hasattr ctxt ''to_dict'' then py_call_method ctxt ''to_dict'' = Inr v
            else py_dict (if py_truthy ctxt then ctxt else PDict Map.empty) = Inr v)"
  using assms
  by (auto simp add: inject_trace_context_def split: sum.splits if_splits)

text \<open>The server wrapper once the parent context is settled.\<close>

lemma server_wrapper_run:
  assumes "py_getattr incoming ''ctxt'' = Inr ctxt"
      and "incoming_ctxt_dict ctxt = Inr ctxt_dict"
      and "extract_parent api ctxt_dict = (Inr ctx, evs)"
      and "py_getattr incoming ''message'' = Inr message"
      and "py_get message ''method'' (PStr ''unknown'') = Inr method"
  shows "wrap_server_process_incoming api original_method self incoming =
           (original_method self incoming,
            evs @
            [StartSpan (FStr ''oslo_messaging.rpc.server.'' method) SERVER ctx,
             SetAttribute ''rpc.method'' method,
             SetAttribute ''rpc.system'' (PStr ''oslo_messaging''),
             SetAttribute ''rpc.service'' (py_getattr_default self ''target'' PNone),
             CallOriginal [self, incoming] Map.empty] @
            (case original_method self incoming of
               Inr result \<Rightarrow> [ExitSpan None]
             | Inl e \<Rightarrow>
                 (if isinstance_exc e ''Exception'' then [RecordException e, SetStatusError] else [])
                 @ [ExitSpan (Some e)]))"
  using assms py_getattr_Inr[OF assms(1)] py_getattr_Inr[OF assms(4)]
  by (simp add: wrap_server_process_incoming_def Let_def split: sum.splits)

lemma extract_parent_absent:
  "d ''_trace_context'' = None \<Longrightarrow> extract_parent api (PDict d) = (Inr None, [])"
  by (simp add: extract_parent_def)

lemma extract_parent_present:
  "py_truthy ctxt_dict \<Longrightarrow> py_contains ''_trace_context'' ctxt_dict = Inr True \<Longrightarrow>
   py_getitem ctxt_dict ''_trace_context'' = Inr carrier \<Longrightarrow>
   extract_parent api ctxt_dict =
     (case prop_extract api carrier of Inl e \<Rightarrow> Inl e | Inr c \<Rightarrow> Inr (Some c), [Extract carrier])"
  by (auto simp add: extract_parent_def split: sum.splits)

section \<open>The client wrapper\<close>

text \<open>
  Claim C1, as the code has it. When the wrapper has injected the trace context and the
  wrapped operation raises \<open>e\<close>, the wrapper raises that same \<open>e\<close>. If \<open>e\<close> is an
  instance of \<open>Exception\<close>, the wrapper has first recorded \<open>e\<close> on the span and set the
  status to ERROR; the handler is \<open>except Exception\<close>, so any other exception
  (\<open>KeyboardInterrupt\<close>, \<open>SystemExit\<close>, \<open>GeneratorExit\<close>) leaves the span block with
  nothing recorded and no status set by the wrapper.
\<close>

theorem client_wrapper_reraises:
  assumes "inject_trace_context api (start_ctx api (FStr ''oslo_messaging.rpc.'' (PStr method_name)) CLIENT None)
             (if \<not> py_truthy ctxt then PDict Map.empty else ctxt) = (Inr ctxt', evs)"
      and "original_method self ctxt' method kwargs = Inl e"
  shows "wrap_client_method api original_method method_name self ctxt method kwargs =
           (Inl e,
            [StartSpan (FStr ''oslo_messaging.rpc.'' (PStr method_name)) CLIENT None,
             SetAttribute ''rpc.method'' method,
             SetAttribute ''rpc.system'' (PStr ''oslo_messaging''),
             SetAttribute ''rpc.service'' (py_getattr_default self ''target'' PNone)]
            @ evs @ [CallOriginal [self, ctxt', method] kwargs]
            @ (if isinstance_exc e ''Exception'' then [RecordException e, SetStatusError] else [])
            @ [ExitSpan (Some e)])"
  using assms by (simp add: wrap_client_method_def Let_def)

text \<open>The scenario of the specification: \<open>invoke({}, "get_status")\<close> raising \<open>TimeoutError\<close>.\<close>

theorem client_wrapper_reraises_witness:
  "inject_trace_context example_api 7 (PDict Map.empty) =
     (Inr (PDict [''_trace_context'' \<mapsto> PDict example_carrier]), [Inject]) \<and>
   wrap_client_method example_api (\<lambda>self ctxt method kwargs. Inl TimeoutError)
     ''call'' PNone (PDict Map.empty) (PStr ''get_status'') Map.empty
   = (Inl TimeoutError,
      [StartSpan (FStr ''oslo_messaging.rpc.'' (PStr ''call'')) CLIENT None,
       SetAttribute ''rpc.method'' (PStr ''get_status''),
       SetAttribute ''rpc.system'' (PStr ''oslo_messaging''),
       SetAttribute ''rpc.service'' PNone,
       Inject,
       CallOriginal [PNone, PDict [''_trace_context'' \<mapsto> PDict example_carrier], PStr ''get_status''] Map.empty,
       RecordException TimeoutError,
       SetStatusError,
       ExitSpan (Some TimeoutError)])"
proof -
  have inj: "inject_trace_context example_api 7 (PDict Map.empty) =
     (Inr (PDict [''_trace_context'' \<mapsto> PDict example_carrier]), [Inject])"
    by (simp add: inject_trace_context_def)
  show ?thesis
    using inj client_wrapper_reraises
      [of example_api "''call''" "PDict Map.empty" "PDict [''_trace_context'' \<mapsto> PDict example_carrier]"
          "[Inject]" "\<lambda>self ctxt method kwargs. Inl TimeoutError" PNone "PStr ''get_status''" Map.empty
          TimeoutError]
    by (simp add: py_getattr_default_def isinstance_exc_def)
qed

text \<open>
  The claim as stated fails for an exception outside \<open>Exception\<close>: the wrapped operation
  is interrupted from the keyboard, the wrapper raises \<open>KeyboardInterrupt\<close> and has
  neither recorded it nor set a status.
\<close>

theorem client_wrapper_unrecorded_counterexample:
  "fst (wrap_client_method example_api (\<lambda>self ctxt method kwargs. Inl KeyboardInterrupt)
          ''call'' PNone (PDict Map.empty) (PStr ''get_status'') Map.empty) = Inl KeyboardInterrupt \<and>
   RecordException KeyboardInterrupt \<notin>
     set (snd (wrap_client_method example_api (\<lambda>self ctxt method kwargs. Inl KeyboardInterrupt)
                 ''call'' PNone (PDict Map.empty) (PStr ''get_status'') Map.empty)) \<and>
   SetStatusError \<notin>
     set (snd (wrap_client_method example_api (\<lambda>self ctxt method kwargs. Inl KeyboardInterrupt)
                 ''call'' PNone (PDict Map.empty) (PStr ''get_status'') Map.empty))"
  by (simp add: wrap_client_method_def inject_trace_context_def Let_def py_getattr_default_def
        isinstance_exc_def)

text \<open>
  Claim C3, as the code has it. Nothing guards the injection. When it fails with \<open>e\<close>
  (the propagator's \<open>inject\<close> raises, or the conversion of the context raises), the
  wrapper leaves the span block with \<open>e\<close> and raises it: the wrapped operation is not
  called. The call is forwarded, with the injected context, whenever the injection returns.
\<close>

theorem injection_failure_blocks_call:
  assumes "inject_trace_context api (start_ctx api (FStr ''oslo_messaging.rpc.'' (PStr method_name)) CLIENT None)
             (if \<not> py_truthy ctxt then PDict Map.empty else ctxt) = (r, evs)"
  shows "(\<forall>e. r = Inl e \<longrightarrow>
            evs = [Inject] \<and>
            wrap_client_method api original_method method_name self ctxt method kwargs =
              (Inl e,
               [StartSpan (FStr ''oslo_messaging.rpc.'' (PStr method_name)) CLIENT None,
                SetAttribute ''rpc.method'' method,
                SetAttribute ''rpc.system'' (PStr ''oslo_messaging''),
                SetAttribute ''rpc.service'' (py_getattr_default self ''target'' PNone),
                Inject,
                ExitSpan (Some e)])) \<and>
         (\<forall>ctxt'. r = Inr ctxt' \<longrightarrow>
            fst (wrap_client_method api original_method method_name self ctxt method kwargs) =
              original_method self ctxt' method kwargs \<and>
            CallOriginal [self, ctxt', method] kwargs \<in>
              set (snd (wrap_client_method api original_method method_name self ctxt method kwargs)))"
  using assms
  by (auto simp add: wrap_client_method_def Let_def inject_trace_context_def split: sum.splits if_splits)

theorem injection_failure_blocks_call_witness:
  "inject_trace_context failing_api 7 (PDict [''user'' \<mapsto> PStr ''alice'']) = (Inl RuntimeError, [Inject]) \<and>
   wrap_client_method failing_api (\<lambda>self ctxt method kwargs. Inr (PStr ''OK''))
     ''cast'' PNone (PDict [''user'' \<mapsto> PStr ''alice'']) (PStr ''get_status'') Map.empty
   = (Inl RuntimeError,
      [StartSpan (FStr ''oslo_messaging.rpc.'' (PStr ''cast'')) CLIENT None,
       SetAttribute ''rpc.method'' (PStr ''get_status''),
       SetAttribute ''rpc.system'' (PStr ''oslo_messaging''),
       SetAttribute ''rpc.service'' PNone,
       Inject,
       ExitSpan (Some RuntimeError)])"
proof -
  have inj: "inject_trace_context failing_api 7 (PDict [''user'' \<mapsto> PStr ''alice'']) = (Inl RuntimeError, [Inject])"
    by (simp add: inject_trace_context_def)
  show ?thesis
    using inj injection_failure_blocks_call
      [of failing_api "''cast''" "PDict [''user'' \<mapsto> PStr ''alice'']" "Inl RuntimeError" "[Inject]"
          "\<lambda>self ctxt method kwargs. Inr (PStr ''OK'')" PNone "PStr ''get_status''" Map.empty]
    by (simp add: py_getattr_default_def)
qed

text \<open>
  The claim as stated fails: with a propagator whose \<open>inject\<close> raises, and with a context
  that \<open>dict\<close> cannot convert (the integer 5), the wrapper raises and the wrapped
  operation, which would have returned \<open>"OK"\<close>, is never called.
\<close>

theorem injection_failure_counterexample:
  "wrap_client_method failing_api (\<lambda>self ctxt method kwargs. Inr (PStr ''OK''))
     ''call'' PNone (PDict Map.empty) (PStr ''get_status'') Map.empty
   = (Inl RuntimeError,
      [StartSpan (FStr ''oslo_messaging.rpc.'' (PStr ''call'')) CLIENT None,
       SetAttribute ''rpc.method'' (PStr ''get_status''),
       SetAttribute ''rpc.system'' (PStr ''oslo_messaging''),
       SetAttribute ''rpc.service'' PNone,
       Inject,
       ExitSpan (Some RuntimeError)]) \<and>
   wrap_client_method example_api (\<lambda>self ctxt method kwargs. Inr (PStr ''OK''))
     ''call'' PNone (PInt 5) (PStr ''get_status'') Map.empty
   = (Inl TypeError,
      [StartSpan (FStr ''oslo_messaging.rpc.'' (PStr ''call'')) CLIENT None,
       SetAttribute ''rpc.method'' (PStr ''get_status''),
       SetAttribute ''rpc.system'' (PStr ''oslo_messaging''),
       SetAttribute ''rpc.service'' PNone,
       Inject,
       ExitSpan (Some TypeError)])"
  by (simp add: wrap_client_method_def inject_trace_context_def Let_def py_getattr_default_def)

text \<open>
  Claim C6, as the code has it. For \<open>invoke({}, method)\<close> through the wrapper of
  \<open>method_name\<close> (\<open>cast\<close> or \<open>call\<close>), when \<open>inject\<close> returns and the wrapped
  operation returns \<open>result\<close>: the wrapper returns \<open>result\<close> unchanged; it starts exactly
  one span, of kind CLIENT, named \<open>oslo_messaging.rpc.\<close> followed by \<open>method_name\<close>, the
  kind of call and not the remote method; it sets \<open>rpc.method\<close> to the remote method,
  \<open>rpc.system\<close> to \<open>oslo_messaging\<close> and \<open>rpc.service\<close> to the target of the caller;
  it sets no status; and the context it forwards holds the carrier under
  \<open>_trace_context\<close>.
\<close>

theorem client_success_path:
  assumes "prop_inject api (start_ctx api (FStr ''oslo_messaging.rpc.'' (PStr method_name)) CLIENT None) = Inr carrier"
      and "original_method self (PDict [''_trace_context'' \<mapsto> PDict carrier]) method kwargs = Inr result"
  shows "wrap_client_method api original_method method_name self (PDict Map.empty) method kwargs =
           (Inr result,
            [StartSpan (FStr ''oslo_messaging.rpc.'' (PStr method_name)) CLIENT None,
             SetAttribute ''rpc.method'' method,
             SetAttribute ''rpc.system'' (PStr ''oslo_messaging''),
             SetAttribute ''rpc.service'' (py_getattr_default self ''target'' PNone),
             Inject,
             CallOriginal [self, PDict [''_trace_context'' \<mapsto> PDict carrier], method] kwargs,
             ExitSpan None])"
  using assms by (simp add: wrap_client_method_def Let_def inject_trace_context_def)

theorem client_success_path_witness:
  "wrap_client_method example_api (\<lambda>self ctxt method kwargs. Inr (PStr ''OK''))
     ''cast'' (PObj [''target'' \<mapsto> PStr ''compute'']) (PDict Map.empty) (PStr ''get_status'')
     [''host'' \<mapsto> PStr ''node1'']
   = (Inr (PStr ''OK''),
      [StartSpan (FStr ''oslo_messaging.rpc.'' (PStr ''cast'')) CLIENT None,
       SetAttribute ''rpc.method'' (PStr ''get_status''),
       SetAttribute ''rpc.system'' (PStr ''oslo_messaging''),
       SetAttribute ''rpc.service'' (PStr ''compute''),
       Inject,
       CallOriginal [PObj [''target'' \<mapsto> PStr ''compute''],
                     PDict [''_trace_context'' \<mapsto> PDict example_carrier],
                     PStr ''get_status''] [''host'' \<mapsto> PStr ''node1''],
       ExitSpan None])"
  using client_success_path
    [of example_api "''cast''" example_carrier "\<lambda>self ctxt method kwargs. Inr (PStr ''OK'')"
        "PObj [''target'' \<mapsto> PStr ''compute'']" "PStr ''get_status''" "[''host'' \<mapsto> PStr ''node1'']"
        "PStr ''OK''"]
  by (simp add: py_getattr_default_def)

text \<open>
  The claim as stated fails on the name: \<open>invoke({}, "get_status")\<close> through the
  wrapper of \<open>call\<close> starts one span, and its name is \<open>oslo_messaging.rpc.call\<close>, in which
  \<open>get_status\<close> does not occur.
\<close>

theorem client_span_name_counterexample:
  "wrap_client_method example_api (\<lambda>self ctxt method kwargs. Inr (PStr ''OK''))
     ''call'' PNone (PDict Map.empty) (PStr ''get_status'') Map.empty
   = (Inr (PStr ''OK''),
      [StartSpan (FStr ''oslo_messaging.rpc.'' (PStr ''call'')) CLIENT None,
       SetAttribute ''rpc.method'' (PStr ''get_status''),
       SetAttribute ''rpc.system'' (PStr ''oslo_messaging''),
       SetAttribute ''rpc.service'' PNone,
       Inject,
       CallOriginal [PNone, PDict [''_trace_context'' \<mapsto> PDict example_carrier], PStr ''get_status'']
         Map.empty,
       ExitSpan None]) \<and>
   \<not> is_substring ''get_status'' (''oslo_messaging.rpc.'' @ ''call'')"
  by (simp add: wrap_client_method_def inject_trace_context_def Let_def py_getattr_default_def)

text \<open>
  Claim C10, as the code has it. Whenever the client wrapper calls the wrapped
  operation, the context it passes holds the carrier under \<open>_trace_context\<close>. For a
  falsy context (\<open>None\<close>, empty) it is a plain dictionary with that key alone; for a
  context without \<open>to_dict\<close> it is a plain dictionary, the \<open>dict()\<close> copy of the
  caller's entries with that key. For an object that has \<open>to_dict\<close> no \<open>dict()\<close> is
  applied: the wrapper passes whatever \<open>to_dict()\<close> returned, with the key assigned
  into it, which is a plain dictionary when \<open>to_dict()\<close> returns one and is of the type
  \<open>to_dict()\<close> chose otherwise.
\<close>

theorem forwarded_context_shape:
  assumes "wrap_client_method api original_method method_name self ctxt method kwargs = (r, evs)"
      and "CallOriginal args kw \<in> set evs"
  shows "\<exists>c' carrier.
           prop_inject api (start_ctx api (FStr ''oslo_messaging.rpc.'' (PStr method_name)) CLIENT None) = Inr carrier \<and>
           args = [self, c', method] \<and> kw = kwargs \<and>
           py_getitem c' ''_trace_context'' = Inr (PDict carrier) \<and>
           (if \<not> py_truthy ctxt then c' = PDict [''_trace_context'' \<mapsto> PDict carrier]
            else if py_hasattr ctxt ''to_dict''
            then (\<exists>v. py_call_method ctxt ''to_dict'' = Inr v \<and>
                      py_setitem v ''_trace_context'' (PDict carrier) = Inr c' \<and>
                      (\<forall>base. v = PDict base \<longrightarrow> c' = PDict (base(''_trace_context'' \<mapsto> PDict carrier))))
            else (\<exists>base. py_dict ctxt = Inr (PDict base) \<and>
                         c' = PDict (base(''_trace_context'' \<mapsto> PDict carrier))))"
proof -
  let ?cur = "start_ctx api (FStr ''oslo_messaging.rpc.'' (PStr method_name)) CLIENT None"
  let ?c1 = "if \<not> py_truthy ctxt then PDict Map.empty else ctxt"
  obtain r1 evs1 where inj: "inject_trace_context api ?cur ?c1 = (r1, evs1)"
    by (cases "inject_trace_context api ?cur ?c1") auto
  show ?thesis
  proof (cases r1)
    case (Inl e)
    with inj assms show ?thesis
      by (auto simp add: wrap_client_method_def Let_def inject_trace_context_def split: sum.splits if_splits)
  next
    case (Inr c')
    with inj inject_trace_context_Inr[of api ?cur ?c1 c' evs1]
    obtain v carrier where b: "prop_inject api ?cur = Inr carrier" "evs1 = [Inject]"
        "py_setitem v ''_trace_context'' (PDict carrier) = Inr c'"
        "if py_hasattr ?c1 ''to_dict'' then py_call_method ?c1 ''to_dict'' = Inr v
         else py_dict (if py_truthy ?c1 then ?c1 else PDict Map.empty) = Inr v"
      by blast
    from inj Inr assms b(2) have ev: "args = [self, c', method] \<and> kw = kwargs"
      by (auto simp add: wrap_client_method_def Let_def split: sum.splits if_splits)
    from py_setitem_Inr[OF b(3)] have stored: "py_getitem c' ''_trace_context'' = Inr (PDict carrier)"
      by simp
    have shape: "if \<not> py_truthy ctxt then c' = PDict [''_trace_context'' \<mapsto> PDict carrier]
            else if py_hasattr ctxt ''to_dict''
            then (\<exists>v. py_call_method ctxt ''to_dict'' = Inr v \<and>
                      py_setitem v ''_trace_context'' (PDict carrier) = Inr c' \<and>
                      (\<forall>base. v = PDict base \<longrightarrow> c' = PDict (base(''_trace_context'' \<mapsto> PDict carrier))))
            else (\<exists>base. py_dict ctxt = Inr (PDict base) \<and>
                         c' = PDict (base(''_trace_context'' \<mapsto> PDict carrier)))"
    proof (cases "py_truthy ctxt")
      case False
      with b(3,4) show ?thesis by auto
    next
      case True
      show ?thesis
      proof (cases "py_hasattr ctxt ''to_dict''")
        case has: True
        with True b(3,4) show ?thesis by auto
      next
        case no: False
        with True b(4) have "py_dict ctxt = Inr v" by simp
        with py_dict_Inr[of ctxt v] b(3) True no show ?thesis by auto
      qed
    qed
    from b(1) ev stored shape show ?thesis by blast
  qed
qed

text \<open>
  A request context object whose \<open>to_dict()\<close> gives the dictionary \<open>{"user": "alice"}\<close>:
  the wrapped operation receives that dictionary with the carrier added.
\<close>

theorem forwarded_context_shape_witness:
  "CallOriginal
     [example_receiver,
      PDict [''user'' \<mapsto> PStr ''alice'', ''_trace_context'' \<mapsto> PDict example_carrier],
      PStr ''get_status''] Map.empty
   \<in> set (snd (wrap_client_method example_api (\<lambda>self ctxt method kwargs. Inr (PStr ''OK'')) ''call'' example_receiver
                 (PObj [''to_dict'' \<mapsto> PCallable (Inr (PDict [''user'' \<mapsto> PStr ''alice'']))])
                 (PStr ''get_status'') Map.empty)) \<and>
   (\<exists>c' carrier.
      prop_inject example_api 7 = Inr carrier \<and>
      [example_receiver,
       PDict [''user'' \<mapsto> PStr ''alice'', ''_trace_context'' \<mapsto> PDict example_carrier],
       PStr ''get_status'']
      = [example_receiver, c', PStr ''get_status''] \<and>
      py_getitem c' ''_trace_context'' = Inr (PDict carrier) \<and>
      py_setitem (PDict [''user'' \<mapsto> PStr ''alice'']) ''_trace_context'' (PDict carrier) = Inr c')"
proof -
  let ?ctxt = "PObj [''to_dict'' \<mapsto> PCallable (Inr (PDict [''user'' \<mapsto> PStr ''alice'']))]"
  let ?w = "wrap_client_method example_api (\<lambda>self ctxt method kwargs. Inr (PStr ''OK'')) ''call'' example_receiver
              ?ctxt (PStr ''get_status'') Map.empty"
  let ?args = "[example_receiver,
      PDict [''user'' \<mapsto> PStr ''alice'', ''_trace_context'' \<mapsto> PDict example_carrier],
      PStr ''get_status'']"
  have run: "?w = (fst ?w, snd ?w)" by simp
  have called: "CallOriginal ?args Map.empty \<in> set (snd ?w)"
    by (simp add: wrap_client_method_def inject_trace_context_def Let_def py_getattr_default_def
          py_call_method_def)
  have conv: "py_call_method ?ctxt ''to_dict'' = Inr (PDict [''user'' \<mapsto> PStr ''alice''])"
    by (simp add: py_call_method_def)
  from forwarded_context_shape[OF run called] conv called show ?thesis
    by auto
qed

text \<open>
  The claim as stated fails for an object whose \<open>to_dict()\<close> returns a mapping that is
  not a \<open>dict\<close>: the wrapped operation receives that mapping, with the key assigned
  into it, and not a plain dictionary.
\<close>

theorem forwarded_context_not_dict_counterexample:
  "wrap_client_method example_api (\<lambda>self ctxt method kwargs. Inr (PStr ''OK'')) ''call'' example_receiver
     (PObj [''to_dict'' \<mapsto> PCallable (Inr (PMapping [''user'' \<mapsto> PStr ''alice'']))])
     (PStr ''get_status'') Map.empty
   = (Inr (PStr ''OK''),
      [StartSpan (FStr ''oslo_messaging.rpc.'' (PStr ''call'')) CLIENT None,
       SetAttribute ''rpc.method'' (PStr ''get_status''),
       SetAttribute ''rpc.system'' (PStr ''oslo_messaging''),
       SetAttribute ''rpc.service'' (PStr ''compute''),
       Inject,
       CallOriginal
         [example_receiver,
          PMapping [''user'' \<mapsto> PStr ''alice'', ''_trace_context'' \<mapsto> PDict example_carrier],
          PStr ''get_status''] Map.empty,
       ExitSpan None])"
  by (simp add: wrap_client_method_def inject_trace_context_def Let_def py_getattr_default_def
        py_call_method_def)

section \<open>The server wrapper\<close>

text \<open>
  Claim C4. An incoming message that does not have both a \<open>ctxt\<close> and a \<open>message\<close>
  attribute goes to the original handler as it is; the wrapper returns (or raises) what
  the handler does and performs no span operation: the call of the handler is the only
  thing it does.
\<close>

theorem server_pass_through:
  "\<not> (py_hasattr incoming ''ctxt'' \<and> py_hasattr incoming ''message'') \<Longrightarrow>
   wrap_server_process_incoming api original_method self incoming =
     (original_method self incoming, [CallOriginal [self, incoming] Map.empty])"
  unfolding wrap_server_process_incoming_def by (simp only: if_False)

text \<open>A message object with a \<open>ctxt\<close> and no \<open>message\<close>.\<close>

theorem server_pass_through_witness:
  "\<not> (py_hasattr (PObj [''ctxt'' \<mapsto> PDict [''_trace_context'' \<mapsto> PDict example_carrier]]) ''ctxt'' \<and>
      py_hasattr (PObj [''ctxt'' \<mapsto> PDict [''_trace_context'' \<mapsto> PDict example_carrier]]) ''message'') \<and>
   wrap_server_process_incoming example_api (\<lambda>self incoming. Inr (PStr ''handled'')) PNone
     (PObj [''ctxt'' \<mapsto> PDict [''_trace_context'' \<mapsto> PDict example_carrier]])
   = (Inr (PStr ''handled''),
      [CallOriginal [PNone, PObj [''ctxt'' \<mapsto> PDict [''_trace_context'' \<mapsto> PDict example_carrier]]]
         Map.empty])"
proof -
  have shape:
    "\<not> (py_hasattr (PObj [''ctxt'' \<mapsto> PDict [''_trace_context'' \<mapsto> PDict example_carrier]]) ''ctxt'' \<and>
        py_hasattr (PObj [''ctxt'' \<mapsto> PDict [''_trace_context'' \<mapsto> PDict example_carrier]]) ''message'')"
    by simp
  from server_pass_through[OF shape, of example_api "\<lambda>self incoming. Inr (PStr ''handled'')" PNone] shape
  show ?thesis by simp
qed

text \<open>
  Claim C5. When the context of an incoming message normalises to a dictionary without
  the key \<open>_trace_context\<close>, the wrapper starts a span of kind SERVER and passes no
  parent context (\<open>context=None\<close>); \<open>extract\<close> is not called, the handler is called
  with the message, and the wrapper returns or raises exactly what the handler does, so
  the missing key raises nothing.
\<close>

theorem server_missing_key_no_parent:
  assumes "py_getattr incoming ''ctxt'' = Inr ctxt"
      and "incoming_ctxt_dict ctxt = Inr (PDict d)"
      and "d ''_trace_context'' = None"
      and "py_getattr incoming ''message'' = Inr message"
      and "py_get message ''method'' (PStr ''unknown'') = Inr method"
  shows "wrap_server_process_incoming api original_method self incoming =
           (original_method self incoming,
            [StartSpan (FStr ''oslo_messaging.rpc.server.'' method) SERVER None,
             SetAttribute ''rpc.method'' method,
             SetAttribute ''rpc.system'' (PStr ''oslo_messaging''),
             SetAttribute ''rpc.service'' (py_getattr_default self ''target'' PNone),
             CallOriginal [self, incoming] Map.empty] @
            (case original_method self incoming of
               Inr result \<Rightarrow> [ExitSpan None]
             | Inl e \<Rightarrow>
                 (if isinstance_exc e ''Exception'' then [RecordException e, SetStatusError] else [])
                 @ [ExitSpan (Some e)]))"
proof -
  have "extract_parent api (PDict d) = (Inr None, [])"
    using assms(3) by (rule extract_parent_absent)
  from server_wrapper_run[OF assms(1,2) this assms(4,5)] show ?thesis by simp
qed

text \<open>A context with a user and no carrier; the message names no method.\<close>

theorem server_missing_key_no_parent_witness:
  "incoming_ctxt_dict (PDict [''user'' \<mapsto> PStr ''alice'']) = Inr (PDict [''user'' \<mapsto> PStr ''alice'']) \<and>
   wrap_server_process_incoming example_api (\<lambda>self incoming. Inr (PStr ''handled'')) PNone
     (PObj [''ctxt'' \<mapsto> PDict [''user'' \<mapsto> PStr ''alice''], ''message'' \<mapsto> PDict Map.empty])
   = (Inr (PStr ''handled''),
      [StartSpan (FStr ''oslo_messaging.rpc.server.'' (PStr ''unknown'')) SERVER None,
       SetAttribute ''rpc.method'' (PStr ''unknown''),
       SetAttribute ''rpc.system'' (PStr ''oslo_messaging''),
       SetAttribute ''rpc.service'' PNone,
       CallOriginal
         [PNone, PObj [''ctxt'' \<mapsto> PDict [''user'' \<mapsto> PStr ''alice''], ''message'' \<mapsto> PDict Map.empty]]
         Map.empty,
       ExitSpan None])"
proof -
  let ?incoming = "PObj [''ctxt'' \<mapsto> PDict [''user'' \<mapsto> PStr ''alice''], ''message'' \<mapsto> PDict Map.empty]"
  have 1: "py_getattr ?incoming ''ctxt'' = Inr (PDict [''user'' \<mapsto> PStr ''alice''])" by simp
  have 2: "incoming_ctxt_dict (PDict [''user'' \<mapsto> PStr ''alice'']) = Inr (PDict [''user'' \<mapsto> PStr ''alice''])"
    by (simp add: incoming_ctxt_dict_def)
  have 3: "[''user'' \<mapsto> PStr ''alice''] ''_trace_context'' = None" by simp
  have 4: "py_getattr ?incoming ''message'' = Inr (PDict Map.empty)" by simp
  have 5: "py_get (PDict Map.empty) ''method'' (PStr ''unknown'') = Inr (PStr ''unknown'')" by simp
  from server_missing_key_no_parent[OF 1 2 3 4 5, of example_api "\<lambda>self incoming. Inr (PStr ''handled'')" PNone] 2
  show ?thesis by (simp add: py_getattr_default_def)
qed

text \<open>
  Claim C2. Let the client-side injection, run while the context \<open>cur\<close> is current, turn
  a context into \<open>C'\<close>, and let the server wrapper receive a message whose normalised
  context is \<open>C'\<close>. Then \<open>C'\<close> holds under \<open>_trace_context\<close> the carrier that \<open>inject\<close>
  produced for \<open>cur\<close>, the server hands exactly that carrier to \<open>extract\<close>, and the
  context \<open>extract\<close> returns for it is the parent of the server span. With a propagator
  whose \<open>extract\<close> gives back the context a carrier was injected from, the parent is
  \<open>cur\<close>.
\<close>

theorem carrier_round_trip:
  assumes "inject_trace_context api cur C = (Inr C', evs)"
      and "py_getattr incoming ''ctxt'' = Inr ctxt"
      and "incoming_ctxt_dict ctxt = Inr C'"
      and "py_getattr incoming ''message'' = Inr message"
      and "py_get message ''method'' (PStr ''unknown'') = Inr method"
  shows "\<exists>carrier. prop_inject api cur = Inr carrier \<and>
           py_getitem C' ''_trace_context'' = Inr (PDict carrier) \<and>
           (\<forall>parent. prop_extract api (PDict carrier) = Inr parent \<longrightarrow>
              (\<exists>rest. snd (wrap_server_process_incoming api original_method self incoming) =
                 Extract (PDict carrier) #
                 StartSpan (FStr ''oslo_messaging.rpc.server.'' method) SERVER (Some parent) # rest))"
proof -
  from inject_trace_context_Inr[OF assms(1)]
  obtain v carrier where b: "prop_inject api cur = Inr carrier"
      "py_setitem v ''_trace_context'' (PDict carrier) = Inr C'"
    by blast
  note stored = py_setitem_Inr[OF b(2)]
  have "\<exists>rest. snd (wrap_server_process_incoming api original_method self incoming) =
          Extract (PDict carrier) #
          StartSpan (FStr ''oslo_messaging.rpc.server.'' method) SERVER (Some parent) # rest"
    if p: "prop_extract api (PDict carrier) = Inr parent" for parent
  proof -
    have "extract_parent api C' = (Inr (Some parent), [Extract (PDict carrier)])"
      using stored p by (simp add: extract_parent_present)
    from server_wrapper_run[OF assms(2,3) this assms(4,5)] show ?thesis by simp
  qed
  with b(1) stored show ?thesis by blast
qed

text \<open>
  The client injects into \<open>{"user": "alice"}\<close> while context 7 is current; the server
  span has 7 as its parent.
\<close>

theorem carrier_round_trip_witness:
  "inject_trace_context example_api 7 (PDict [''user'' \<mapsto> PStr ''alice'']) =
     (Inr (PDict [''user'' \<mapsto> PStr ''alice'', ''_trace_context'' \<mapsto> PDict example_carrier]), [Inject]) \<and>
   (\<exists>rest.
      snd (wrap_server_process_incoming example_api (\<lambda>self incoming. Inr (PStr ''handled'')) PNone
             (PObj [''ctxt'' \<mapsto> PDict [''user'' \<mapsto> PStr ''alice'', ''_trace_context'' \<mapsto> PDict example_carrier],
                    ''message'' \<mapsto> PDict [''method'' \<mapsto> PStr ''get_status'']]))
      = Extract (PDict example_carrier) #
        StartSpan (FStr ''oslo_messaging.rpc.server.'' (PStr ''get_status'')) SERVER (Some 7) # rest)"
proof -
  let ?C' = "PDict [''user'' \<mapsto> PStr ''alice'', ''_trace_context'' \<mapsto> PDict example_carrier]"
  let ?incoming = "PObj [''ctxt'' \<mapsto> ?C', ''message'' \<mapsto> PDict [''method'' \<mapsto> PStr ''get_status'']]"
  have 1: "inject_trace_context example_api 7 (PDict [''user'' \<mapsto> PStr ''alice'']) = (Inr ?C', [Inject])"
    by (simp add: inject_trace_context_def)
  have 2: "py_getattr ?incoming ''ctxt'' = Inr ?C'" by simp
  have 3: "incoming_ctxt_dict ?C' = Inr ?C'" by (simp add: incoming_ctxt_dict_def)
  have 4: "py_getattr ?incoming ''message'' = Inr (PDict [''method'' \<mapsto> PStr ''get_status''])" by simp
  have 5: "py_get (PDict [''method'' \<mapsto> PStr ''get_status'']) ''method'' (PStr ''unknown'') = Inr (PStr ''get_status'')"
    by simp
  from carrier_round_trip[OF 1 2 3 4 5, of "\<lambda>self incoming. Inr (PStr ''handled'')" PNone] 1
  show ?thesis by simp
qed




section \<open>Installing, then removing\<close>

lemma uninstrument_removes_inject:
  assumes "BaseCallContext t = Some cls"
  shows "\<exists>cls'. BaseCallContext (uninstrument unwrap t) = Some cls' \<and> cls' ''_inject_trace_context'' = None"
  using assms
  by (auto simp add: uninstrument_def uninstrument_server_def uninstrument_client_def Let_def
        split: option.splits)

lemma instrument_keeps_client_class:
  "BaseCallContext s = Some cls \<Longrightarrow> \<exists>cls'. BaseCallContext (snd (instrument tracer s)) = Some cls'"
  by (auto simp add: instrument_def instrument_server_def instrument_client_def Let_def
        split: option.splits)

text \<open>
  Claim C9 does not hold of the code. \<open>_uninstrument\<close> hands the three methods to
  \<open>unwrap\<close> and deletes \<open>_inject_trace_context\<close> whenever the class has one. The
  wrappers this module installs are plain functions decorated with \<open>functools.wraps\<close>:
  with an \<open>unwrap\<close> that undoes proxy objects only and leaves a plain function where it
  is, instrumenting and uninstrumenting the classes of oslo.messaging leaves \<open>call\<close>,
  \<open>cast\<close> and \<open>_process_incoming\<close> wrapped, with \<open>_inject_trace_context\<close> gone. And
  whatever \<open>unwrap\<close> does, a client class that had an \<open>_inject_trace_context\<close> of its
  own, which \<open>_instrument_client\<close> keeps, has lost it afterwards: the state before is
  not restored.
\<close>

theorem uninstrument_does_not_restore:
  "uninstrument (\<lambda>obj attr. obj) (snd (instrument 0 oslo_modules))
   = \<lparr>BaseCallContext = Some [''call'' \<mapsto> ClientWrapper (Foreign ''call'') 0 ''call'',
                               ''cast'' \<mapsto> ClientWrapper (Foreign ''cast'') 0 ''cast'',
                               ''prepare'' \<mapsto> Foreign ''prepare''],
      RPCServer = Some [''_process_incoming'' \<mapsto> ServerWrapper (Foreign ''_process_incoming'') 0]\<rparr> \<and>
   (\<forall>unwrap. uninstrument unwrap (snd (instrument 0 own_inject_modules)) \<noteq> own_inject_modules)"
proof -
  have kept: "uninstrument (\<lambda>obj attr. obj) (snd (instrument 0 oslo_modules))
   = \<lparr>BaseCallContext = Some [''call'' \<mapsto> ClientWrapper (Foreign ''call'') 0 ''call'',
                               ''cast'' \<mapsto> ClientWrapper (Foreign ''cast'') 0 ''cast'',
                               ''prepare'' \<mapsto> Foreign ''prepare''],
      RPCServer = Some [''_process_incoming'' \<mapsto> ServerWrapper (Foreign ''_process_incoming'') 0]\<rparr>"
    by (auto simp add: uninstrument_def uninstrument_client_def uninstrument_server_def instrument_def
          instrument_client_def instrument_server_def RPC_CALL_METHODS_def Let_def fun_eq_iff)
  have lost: "uninstrument unwrap (snd (instrument 0 own_inject_modules)) \<noteq> own_inject_modules" for unwrap
  proof
    assume same: "uninstrument unwrap (snd (instrument 0 own_inject_modules)) = own_inject_modules"
    obtain cls where "BaseCallContext (snd (instrument 0 own_inject_modules)) = Some cls"
      using instrument_keeps_client_class[of own_inject_modules _ 0] by auto
    from uninstrument_removes_inject[OF this, of unwrap]
    obtain cls' where c: "BaseCallContext (uninstrument unwrap (snd (instrument 0 own_inject_modules))) = Some cls'"
        "cls' ''_inject_trace_context'' = None"
      by blast
    from c(1) same have "cls' = [''call'' \<mapsto> Foreign ''call'',
                               ''_inject_trace_context'' \<mapsto> Foreign ''_inject_trace_context'']"
      by simp
    with c(2) show False by simp
  qed
  from kept lost show ?thesis by blast
qed

section \<open>What the injection writes\<close>

text \<open>
  Claim C8, as the code has it. Run \<open>_inject_trace_context\<close> on a store \<open>h\<close> and let it
  return \<open>r\<close>, leaving the store \<open>h'\<close>. For a context without \<open>to_dict\<close> (\<open>None\<close>,
  empty, or a plain dictionary) the result is a new dictionary, at an address that was
  free before the call, holding the entries of the caller's dictionary and the carrier
  under \<open>_trace_context\<close>; every object that existed before the call is unchanged. For
  an object with \<open>to_dict\<close> the function returns the very dictionary \<open>to_dict()\<close>
  returned and writes the key into it where it is: that is the only object it changes,
  and it is a new one only if \<open>to_dict()\<close> made a new one. In every case the value the
  injection returns is the context the client wrapper passes to the wrapped operation.
\<close>

theorem injection_store_frame:
  assumes "inject_trace_context_store methods (Inr content) h ctxt = (Inr r, h')"
      and "\<forall>a. ctxt = SRef a \<longrightarrow> a < length h"
  shows "(\<not> s_hasattr_to_dict h ctxt \<longrightarrow>
            (\<exists>n d. r = SRef n \<and> length h < n \<and> n < length h' \<and>
                    (if s_truthy h ctxt then deref h ctxt = Some (SDict d) else d = Map.empty) \<and>
                    h' ! n = SDict (d(''_trace_context'' \<mapsto> SRef (length h))) \<and>
                    h' ! length h = SDict content \<and>
                    (\<forall>a<length h. h' ! a = h ! a))) \<and>
         (s_hasattr_to_dict h ctxt \<longrightarrow>
            (\<exists>n d h3. s_call_to_dict methods (h @ [SDict content]) ctxt = (Inr (SRef n), h3) \<and>
                    r = SRef n \<and> n < length h3 \<and> h3 ! n = SDict d \<and>
                    h' = h3[n := SDict (d(''_trace_context'' \<mapsto> SRef (length h)))])) \<and>
         (\<forall>c'. fst (inject_trace_context api
                       (start_ctx api (FStr ''oslo_messaging.rpc.'' (PStr method_name)) CLIENT None)
                       (if \<not> py_truthy c then PDict Map.empty else c)) = Inr c' \<longrightarrow>
               CallOriginal [self, c', method] kwargs \<in>
                 set (snd (wrap_client_method api original_method method_name self c method kwargs)))"
proof -
  let ?h2 = "h @ [SDict content]"
  have has: "s_hasattr_to_dict ?h2 ctxt = s_hasattr_to_dict h ctxt"
    using assms(2) by (cases ctxt) (auto simp add: s_hasattr_to_dict_def deref_def nth_append)
  have tr: "s_truthy ?h2 ctxt = s_truthy h ctxt"
    using assms(2) by (cases ctxt) (auto simp add: s_truthy_def deref_def nth_append)
  have copied: "\<not> s_hasattr_to_dict h ctxt \<longrightarrow>
            (\<exists>n d. r = SRef n \<and> length h < n \<and> n < length h' \<and>
                    (if s_truthy h ctxt then deref h ctxt = Some (SDict d) else d = Map.empty) \<and>
                    h' ! n = SDict (d(''_trace_context'' \<mapsto> SRef (length h))) \<and>
                    h' ! length h = SDict content \<and>
                    (\<forall>a<length h. h' ! a = h ! a))"
  proof (cases "s_truthy h ctxt")
    case True
    with assms has tr show ?thesis
      by (cases ctxt)
         (auto simp add: inject_trace_context_store_def Let_def s_setitem_def s_dict_def deref_def nth_append
            s_truthy_def split: sum.splits prod.splits sval.splits option.splits sobj.splits if_splits)
  next
    case False
    with assms has tr show ?thesis
      by (auto simp add: inject_trace_context_store_def Let_def s_setitem_def s_dict_def deref_def nth_append
            split: sum.splits prod.splits sval.splits option.splits sobj.splits if_splits)
  qed
  have in_place: "s_hasattr_to_dict h ctxt \<longrightarrow>
            (\<exists>n d h3. s_call_to_dict methods (h @ [SDict content]) ctxt = (Inr (SRef n), h3) \<and>
                    r = SRef n \<and> n < length h3 \<and> h3 ! n = SDict d \<and>
                    h' = h3[n := SDict (d(''_trace_context'' \<mapsto> SRef (length h)))])"
    using assms(1) has
    by (auto simp add: inject_trace_context_store_def Let_def s_setitem_def deref_def
          split: sum.splits prod.splits sval.splits option.splits sobj.splits if_splits)
  have passed: "\<forall>c'. fst (inject_trace_context api
                       (start_ctx api (FStr ''oslo_messaging.rpc.'' (PStr method_name)) CLIENT None)
                       (if \<not> py_truthy c then PDict Map.empty else c)) = Inr c' \<longrightarrow>
               CallOriginal [self, c', method] kwargs \<in>
                 set (snd (wrap_client_method api original_method method_name self c method kwargs))"
    by (auto simp add: wrap_client_method_def Let_def split: sum.splits prod.splits if_splits)
  from copied in_place passed show ?thesis by blast
qed

text \<open>
  The caller's dictionary \<open>{"user": "alice"}\<close> at address 0: the carrier goes to address
  1, the copy with the key to address 2, and address 0 is as it was.
\<close>

theorem injection_store_frame_witness:
  "inject_trace_context_store returns_data (Inr [''traceparent'' \<mapsto> SStr ''00-0af7-b7ad-01''])
     [SDict [''user'' \<mapsto> SStr ''alice'']] (SRef 0)
   = (Inr (SRef 2),
      [SDict [''user'' \<mapsto> SStr ''alice''],
       SDict [''traceparent'' \<mapsto> SStr ''00-0af7-b7ad-01''],
       SDict [''user'' \<mapsto> SStr ''alice'', ''_trace_context'' \<mapsto> SRef 1]]) \<and>
   \<not> s_hasattr_to_dict [SDict [''user'' \<mapsto> SStr ''alice'']] (SRef 0) \<and>
   (\<exists>n d. SRef 2 = SRef n \<and> length [SDict [''user'' \<mapsto> SStr ''alice'']] < n \<and>
      [SDict [''user'' \<mapsto> SStr ''alice''],
       SDict [''traceparent'' \<mapsto> SStr ''00-0af7-b7ad-01''],
       SDict [''user'' \<mapsto> SStr ''alice'', ''_trace_context'' \<mapsto> SRef 1]] ! n
        = SDict (d(''_trace_context'' \<mapsto> SRef 1)) \<and>
      deref [SDict [''user'' \<mapsto> SStr ''alice'']] (SRef 0) = Some (SDict d))"
proof -
  let ?h = "[SDict [''user'' \<mapsto> SStr ''alice'']]"
  let ?h' = "[SDict [''user'' \<mapsto> SStr ''alice''],
       SDict [''traceparent'' \<mapsto> SStr ''00-0af7-b7ad-01''],
       SDict [''user'' \<mapsto> SStr ''alice'', ''_trace_context'' \<mapsto> SRef 1]]"
  have run: "inject_trace_context_store returns_data (Inr [''traceparent'' \<mapsto> SStr ''00-0af7-b7ad-01''])
               ?h (SRef 0) = (Inr (SRef 2), ?h')"
    by (simp add: inject_trace_context_store_def Let_def s_hasattr_to_dict_def s_truthy_def s_dict_def
          s_setitem_def deref_def)
  have wf: "\<forall>a. SRef 0 = SRef a \<longrightarrow> a < length ?h" by simp
  have plain: "\<not> s_hasattr_to_dict ?h (SRef 0)" by (simp add: s_hasattr_to_dict_def deref_def)
  have truthy: "s_truthy ?h (SRef 0)" by (simp add: s_truthy_def deref_def)
  from injection_store_frame[OF run wf, THEN conjunct1] plain truthy
  have "\<exists>n d. SRef 2 = SRef n \<and> length ?h < n \<and> n < length ?h' \<and>
                deref ?h (SRef 0) = Some (SDict d) \<and>
                ?h' ! n = SDict (d(''_trace_context'' \<mapsto> SRef (length ?h))) \<and>
                ?h' ! length ?h = SDict [''traceparent'' \<mapsto> SStr ''00-0af7-b7ad-01''] \<and>
                (\<forall>a<length ?h. ?h' ! a = ?h ! a)"
    by simp
  then have "\<exists>n d. SRef 2 = SRef n \<and> length ?h < n \<and>
                ?h' ! n = SDict (d(''_trace_context'' \<mapsto> SRef 1)) \<and>
                deref ?h (SRef 0) = Some (SDict d)"
    by auto
  with run plain show ?thesis by blast
qed

text \<open>
  The claim as stated fails for an object whose \<open>to_dict\<close> is \<open>return self.data\<close>.
  The caller holds that object at address 1 and its \<open>data\<close>, the dictionary
  \<open>{"user": "alice"}\<close>, at address 0. The injection returns address 0, not a new
  mapping, and the caller's dictionary now holds \<open>_trace_context\<close>.
\<close>

theorem injection_aliasing_counterexample:
  "inject_trace_context_store returns_data (Inr [''traceparent'' \<mapsto> SStr ''00-0af7-b7ad-01''])
     [SDict [''user'' \<mapsto> SStr ''alice''], SInst [''data'' \<mapsto> SRef 0] (Some 0)] (SRef 1)
   = (Inr (SRef 0),
      [SDict [''user'' \<mapsto> SStr ''alice'', ''_trace_context'' \<mapsto> SRef 2],
       SInst [''data'' \<mapsto> SRef 0] (Some 0),
       SDict [''traceparent'' \<mapsto> SStr ''00-0af7-b7ad-01'']])"
  by (simp add: inject_trace_context_store_def Let_def s_hasattr_to_dict_def s_call_to_dict_def
        s_setitem_def deref_def numeral_2_eq_2)

end
